theory Spec2Isabelle
  imports Complex_Main "HOL-Library.Word"
begin

unbundle bit_operations_syntax

section \<open>Python values\<close>

text \<open>
  The client handles whatever \<^verbatim>\<open>r.json()\<close> returns, so the model has a type of the
  Python values a JSON document parses to. A dict is an association list in insertion
  order (Python dicts keep it, and \<^verbatim>\<open>list(data.keys())\<close> shows it). A float is its
  IEEE-754 bit pattern: the client only ever tests a float for truth. A character of a
  \<^typ>\<open>string\<close> stands for one code point of a Python \<^verbatim>\<open>str\<close>.
\<close>

datatype pyval =
    PNone
  | PBool bool
  | PInt int
  | PFloat "64 word"
  | PStr string
  | PList "pyval list"
  | PDict "(string \<times> pyval) list"

type_synonym pydict = "(string \<times> pyval) list"

text \<open>\<^verbatim>\<open>bool(v)\<close>: what \<^verbatim>\<open>if v\<close>, \<^verbatim>\<open>not v\<close> and \<^verbatim>\<open>a or b\<close> test.\<close>

fun truthy :: "pyval \<Rightarrow> bool" where
  "truthy PNone = False"
| "truthy (PBool b) = b"
| "truthy (PInt i) = (i \<noteq> 0)"
| "truthy (PFloat w) = (take_bit 63 w \<noteq> 0)"
| "truthy (PStr s) = (s \<noteq> [])"
| "truthy (PList xs) = (xs \<noteq> [])"
| "truthy (PDict d) = (d \<noteq> [])"

text \<open>\<^verbatim>\<open>a or b\<close>\<close>

definition py_or :: "pyval \<Rightarrow> pyval \<Rightarrow> pyval" where
  "py_or a b = (if truthy a then a else b)"

text \<open>\<^verbatim>\<open>type(v).__name__\<close>\<close>

fun type_name :: "pyval \<Rightarrow> string" where
  "type_name PNone = ''NoneType''"
| "type_name (PBool b) = ''bool''"
| "type_name (PInt i) = ''int''"
| "type_name (PFloat w) = ''float''"
| "type_name (PStr s) = ''str''"
| "type_name (PList xs) = ''list''"
| "type_name (PDict d) = ''dict''"

text \<open>\<^verbatim>\<open>d.get(k)\<close> on a dict: the value, or \<^verbatim>\<open>None\<close> when the key is absent.\<close>

definition dict_get :: "pydict \<Rightarrow> string \<Rightarrow> pyval" where
  "dict_get d k = (case map_of d k of None \<Rightarrow> PNone | Some v \<Rightarrow> v)"

text \<open>\<^verbatim>\<open>d[k] = v\<close>: an existing key keeps its place, a new key goes last.\<close>

fun dict_set :: "pydict \<Rightarrow> string \<Rightarrow> pyval \<Rightarrow> pydict" where
  "dict_set [] k v = [(k, v)]"
| "dict_set ((k', v') # d) k v =
     (if k' = k then (k, v) # d else (k', v') # dict_set d k v)"

text \<open>\<^verbatim>\<open>d.update(e)\<close>, and \<^verbatim>\<open>{**d, **e}\<close> on a copy.\<close>

definition dict_update :: "pydict \<Rightarrow> pydict \<Rightarrow> pydict" where
  "dict_update d e = foldl (\<lambda>acc (k, v). dict_set acc k v) d e"

text \<open>\<^verbatim>\<open>d.setdefault(k, v)\<close>: stores only when the key is absent.\<close>

definition setdefault :: "pydict \<Rightarrow> string \<Rightarrow> pyval \<Rightarrow> pydict" where
  "setdefault d k v = (if k \<in> fst ` set d then d else d @ [(k, v)])"

text \<open>\<^verbatim>\<open>s.startswith(p)\<close>\<close>

definition startswith :: "string \<Rightarrow> string \<Rightarrow> bool" where
  "startswith s p = (take (length p) s = p)"

section \<open>Responses, exceptions and the outside world\<close>

text \<open>
  A \<^verbatim>\<open>requests.Response\<close>, as far as the client reads it: \<^verbatim>\<open>r.status_code\<close>,
  \<^verbatim>\<open>r.headers.get("content-type")\<close>, \<^verbatim>\<open>r.text\<close>, and the outcome of
  \<^verbatim>\<open>r.json()\<close> (\<open>None\<close> when it raises).
\<close>

record response =
  status_code :: int
  content_type :: "string option"
  resp_text :: string
  json :: "pyval option"

datatype exn =
    RuntimeError string
  | ValueError string
  | AttributeError string
  | HTTPError response
  | LibraryError string string

text \<open>
  \<open>HTTPError\<close> is what \<^verbatim>\<open>raise_for_status\<close> raises; \<open>LibraryError name msg\<close> is any
  exception raised inside a library call (a connection error or a timeout of
  \<^verbatim>\<open>requests\<close>, a failed read of the upload), with its class name and message.
\<close>

type_synonym bytes = "8 word list"

text \<open>
  Every call that leaves the program is an event. A request carries the session's
  headers at the time of the call besides its own arguments.
\<close>

datatype event =
    Get pydict string "pydict option" int
  | Post pydict string "(string \<times> string \<times> bytes \<times> string) list" pydict pydict int
  | Sleep int
  | Time
  | PrintExc

text \<open>
  The environment: the configuration read from the process environment, the remote host
  and the clock as functions of the history of events (the last event is the call being
  answered), and the library functions the client calls on values (\<open>render\<close> is the
  serialisation done by \<^verbatim>\<open>JSONResponse\<close>, \<open>default_headers\<close> the headers of a fresh
  \<^verbatim>\<open>requests.Session\<close>).
  \<open>RESULTS_JSON_PATH\<close> is the template split at its \<^verbatim>\<open>{file_id}\<close> placeholder.
\<close>

datatype piece = Lit string | FileId

record env =
  BASE :: string
  UPLOAD_PATH :: string
  RESULTS_JSON_PATH :: "piece list"
  http :: "event list \<Rightarrow> exn + response"
  clock :: "event list \<Rightarrow> rat"
  py_repr :: "pyval \<Rightarrow> string"
  json_dumps :: "pyval \<Rightarrow> string"
  guess_type :: "string \<Rightarrow> string option"
  http_error_str :: "response \<Rightarrow> string"
  render :: "pyval \<Rightarrow> exn + string"
  default_headers :: pydict

text \<open>The state of one call: the history so far and \<^verbatim>\<open>session.headers\<close>.\<close>

record state =
  trace :: "event list"
  sess :: pydict

definition request :: "env \<Rightarrow> event \<Rightarrow> state \<Rightarrow> (exn + response) \<times> state" where
  "request E ev s = (http E (trace s @ [ev]), s\<lparr>trace := trace s @ [ev]\<rparr>)"

definition sleep :: "int \<Rightarrow> state \<Rightarrow> state" where
  "sleep n s = s\<lparr>trace := trace s @ [Sleep n]\<rparr>"

definition time_now :: "env \<Rightarrow> state \<Rightarrow> rat \<times> state" where
  "time_now E s = (clock E (trace s @ [Time]), s\<lparr>trace := trace s @ [Time]\<rparr>)"

text \<open>\<^verbatim>\<open>str(v)\<close>, as an f-string and \<^verbatim>\<open>str.format\<close> apply it.\<close>

fun py_str :: "env \<Rightarrow> pyval \<Rightarrow> string" where
  "py_str E (PStr s) = s"
| "py_str E v = py_repr E v"

text \<open>\<^verbatim>\<open>r.raise_for_status()\<close>\<close>

definition raise_for_status :: "response \<Rightarrow> exn option" where
  "raise_for_status r =
     (if 400 \<le> status_code r \<and> status_code r < 600 then Some (HTTPError r) else None)"

section \<open>mix\_client.py\<close>

definition BASE_HEADERS :: pydict where
  "BASE_HEADERS =
     [(''User-Agent'', PStr ''MixAnalyzerService/1.0 (+python; FastAPI client)''),
      (''Accept'', PStr ''application/json, text/plain, */*''),
      (''Accept-Language'', PStr ''en-GB,en;q=0.9'')]"

definition guess_mimetype :: "env \<Rightarrow> string \<Rightarrow> string" where
  "guess_mimetype E filename =
     (case guess_type E filename of
        None \<Rightarrow> ''audio/mpeg''
      | Some mt \<Rightarrow> if mt \<noteq> [] then mt else ''audio/mpeg'')"

definition new_session :: "env \<Rightarrow> pydict" where
  "new_session E =
     dict_update (dict_update (default_headers E) BASE_HEADERS)
       [(''Connection'', PStr ''keep-alive'')]"

text \<open>The message of the \<^verbatim>\<open>AttributeError\<close> for a method a value does not have.\<close>

definition no_attribute :: "pyval \<Rightarrow> string \<Rightarrow> exn" where
  "no_attribute v name =
     AttributeError ([CHR 0x27] @ type_name v @ [CHR 0x27] @ '' object has no attribute ''
                     @ [CHR 0x27] @ name @ [CHR 0x27])"

text \<open>The request \<^verbatim>\<open>_get_csrf\<close> sends, from a session with headers \<open>hs\<close>.\<close>

definition csrf_request :: "env \<Rightarrow> pydict \<Rightarrow> int \<Rightarrow> event" where
  "csrf_request E hs timeout =
     Get hs (BASE E @ ''/csrf-token'')
       (Some (dict_update BASE_HEADERS [(''Accept'', PStr ''application/json'')])) timeout"

definition get_csrf :: "env \<Rightarrow> int \<Rightarrow> state \<Rightarrow> (exn + pyval) \<times> state" where
  "get_csrf E timeout s =
     (case request E (csrf_request E (sess s) timeout) s of
        (Inl e, s1) \<Rightarrow> (Inl e, s1)
      | (Inr r, s1) \<Rightarrow>
          (case raise_for_status r of
             Some e \<Rightarrow> (Inl e, s1)
           | None \<Rightarrow>
               (case json r of
                  None \<Rightarrow>
                    (Inl (RuntimeError (''Could not parse CSRF response as JSON: ''
                                         @ take 300 (resp_text r))), s1)
                | Some (PDict d) \<Rightarrow>
                    (let token = py_or (dict_get d ''csrf_token'') (dict_get d ''csrfToken'') in
                     if \<not> truthy token then
                       (Inl (RuntimeError (''Could not fetch CSRF token: payload keys=''
                                            @ py_repr E (PList (map (PStr \<circ> fst) d)))), s1)
                     else (Inr token, s1\<lparr>sess := dict_set (sess s1) ''X-CSRFToken'' token\<rparr>))
                | Some v \<Rightarrow> (Inl (no_attribute v ''get''), s1))))"

definition browser_like_post_headers :: "env \<Rightarrow> pyval \<Rightarrow> pydict" where
  "browser_like_post_headers E csrf_token =
     [(''Origin'', PStr (BASE E)),
      (''Referer'', PStr (BASE E @ ''/'')),
      (''X-Requested-With'', PStr ''XMLHttpRequest''),
      (''X-CSRFToken'', csrf_token),
      (''Accept'', PStr ''application/json, text/plain, */*'')]"

definition do_post ::
  "env \<Rightarrow> string \<Rightarrow> (string \<times> string \<times> bytes \<times> string) list \<Rightarrow> pydict \<Rightarrow> pydict \<Rightarrow> int
     \<Rightarrow> state \<Rightarrow> (exn + response) \<times> state" where
  "do_post E url files data headers timeout s =
     request E (Post (sess s) url files data headers timeout) s"

text \<open>
  \<^verbatim>\<open>headers\<close> and \<^verbatim>\<open>data\<close> are dicts the refresh branch mutates; the later
  \<^verbatim>\<open>do_post\<close> reads them as they are then, so the branch hands them on.
\<close>

definition post_with_optional_retry ::
  "env \<Rightarrow> string \<Rightarrow> (string \<times> string \<times> bytes \<times> string) list \<Rightarrow> pydict \<Rightarrow> pydict \<Rightarrow> int
     \<Rightarrow> bool \<Rightarrow> state \<Rightarrow> (exn + response) \<times> state" where
  "post_with_optional_retry E url files data headers timeout retry_csrf s =
     (case do_post E url files data headers timeout s of
        (Inl e, s1) \<Rightarrow> (Inl e, s1)
      | (Inr r0, s1) \<Rightarrow>
          (let (r, data', headers', s2) =
             (if status_code r0 \<in> {401, 403} \<and> retry_csrf then
                (case get_csrf E (min 20 timeout) s1 of
                   (Inl e, sa) \<Rightarrow> (r0, data, headers, sa)
                 | (Inr new_csrf, sa) \<Rightarrow>
                     (let headers1 = dict_update headers (browser_like_post_headers E new_csrf);
                          data1 = dict_set data ''csrf_token'' new_csrf
                      in case do_post E url files data1 headers1 timeout sa of
                           (Inl e, sb) \<Rightarrow> (r0, data1, headers1, sb)
                         | (Inr r1, sb) \<Rightarrow> (r1, data1, headers1, sb)))
              else (r0, data, headers, s1))
           in if status_code r \<in> {429, 500, 502, 503, 504} then
                do_post E url files data' headers' timeout (sleep 2 s2)
              else (Inr r, s2)))"

text \<open>\<^verbatim>\<open>RESULTS_JSON_PATH.format(file_id=file_id)\<close>\<close>

definition format_path :: "env \<Rightarrow> piece list \<Rightarrow> pyval \<Rightarrow> string" where
  "format_path E tpl file_id =
     concat (map (\<lambda>p. case p of Lit l \<Rightarrow> l | FileId \<Rightarrow> py_str E file_id) tpl)"

text \<open>
  The \<^verbatim>\<open>while\<close> loop of \<^verbatim>\<open>_poll_json_results\<close>. Nothing in the code bounds the
  number of iterations, only the clock does, so the loop is a partial function: \<open>None\<close>
  is a loop that never ends. A result \<open>Inl e\<close> is an exception leaving the loop.
\<close>

partial_function (option) poll_loop ::
  "env \<Rightarrow> string \<Rightarrow> rat \<Rightarrow> int \<Rightarrow> state \<Rightarrow> ((exn + pyval) \<times> state) option" where
  "poll_loop E json_url start timeout s =
     (case time_now E s of (t, s1) \<Rightarrow>
        if t - start < of_int timeout then
          (case request E (Get (sess s1) json_url None 15) s1 of
             (Inl e, s2) \<Rightarrow> Some (Inl e, s2)
           | (Inr r, s2) \<Rightarrow>
               if status_code r = 200 then
                 (let ctype = (case content_type r of None \<Rightarrow> [] | Some c \<Rightarrow> c) in
                  if startswith ctype ''application/json'' then
                    (case json r of
                       Some v \<Rightarrow> Some (Inr v, s2)
                     | None \<Rightarrow> poll_loop E json_url start timeout (sleep 2 s2))
                  else poll_loop E json_url start timeout s2)
               else if status_code r \<in> {404, 403} then
                 poll_loop E json_url start timeout (sleep 3 s2)
               else poll_loop E json_url start timeout (sleep 2 s2))
        else Some (Inr PNone, s1))"

definition poll_json_results ::
  "env \<Rightarrow> pyval \<Rightarrow> int \<Rightarrow> state \<Rightarrow> ((exn + pyval) \<times> state) option" where
  "poll_json_results E file_id timeout s =
     (let json_url = BASE E @ format_path E (RESULTS_JSON_PATH E) file_id in
      case time_now E s of (start, s0) \<Rightarrow> poll_loop E json_url start timeout s0)"

definition visuals_fallback :: "env \<Rightarrow> pyval \<Rightarrow> string \<Rightarrow> pyval" where
  "visuals_fallback E file_id filename =
     (let static = BASE E @ ''/static/uploads/'' @ py_str E file_id in
      PDict
        [(''file_id'', file_id),
         (''filename'', PStr filename),
         (''status'', PStr ''visuals_ready_only''),
         (''visualizations'', PDict
            [(''waveform'', PStr (static @ ''/waveform.png'')),
             (''spectrogram'', PStr (static @ ''/spectrogram.png'')),
             (''spectrum'', PStr (static @ ''/spectrum.png'')),
             (''chromagram'', PStr (static @ ''/chromagram.png'')),
             (''stereo_field'', PStr (static @ ''/stereo_field.png'')),
             (''vectorscope'', PStr (static @ ''/vectorscope.png'')),
             (''dynamic_range'', PStr (static @ ''/dynamic_range.png'')),
             (''spatial_field'', PStr (static @ ''/spatial_field.png''))])])"

text \<open>The one character U+2026 of the source, here as its UTF-8 bytes.\<close>

definition ellipsis :: string where
  "ellipsis = [CHR 0xE2, CHR 0x80, CHR 0xA6]"

text \<open>\<^verbatim>\<open>str(bool(b)).lower()\<close>\<close>

definition lower_bool :: "bool \<Rightarrow> string" where
  "lower_bool b = (if b then ''true'' else ''false'')"

text \<open>
  \<^verbatim>\<open>analyze_track\<close>, steps 1 and 2 (the source up to the return of
  \<^verbatim>\<open>_post_with_optional_retry\<close>): a fresh session, the token, the upload. \<open>tr\<close> is
  the history before the call.
\<close>

definition upload ::
  "env \<Rightarrow> bytes \<Rightarrow> string \<Rightarrow> bool \<Rightarrow> int \<Rightarrow> bool \<Rightarrow> event list \<Rightarrow> (exn + response) \<times> state" where
  "upload E file_bytes filename is_instrumental timeout retry_csrf tr =
     (let session = \<lparr>trace = tr, sess = new_session E\<rparr> in
      case get_csrf E (min 20 timeout) session of
        (Inl e, s1) \<Rightarrow> (Inl e, s1)
      | (Inr csrf, s1) \<Rightarrow>
          (let post_headers = browser_like_post_headers E csrf;
               upload_url = BASE E @ UPLOAD_PATH E;
               files = [(''file'', (filename, file_bytes, guess_mimetype E filename))];
               data = [(''csrf_token'', csrf),
                       (''is_instrumental'', PStr (lower_bool is_instrumental)),
                       (''instrumental'', PStr (lower_bool is_instrumental))]
           in post_with_optional_retry E upload_url files data post_headers timeout
                retry_csrf s1))"

text \<open>\<^verbatim>\<open>analyze_track\<close>, from the check of the upload's status to the end.\<close>

definition analyze_track ::
  "env \<Rightarrow> bytes \<Rightarrow> string \<Rightarrow> bool \<Rightarrow> int \<Rightarrow> bool \<Rightarrow> event list
     \<Rightarrow> ((exn + pyval) \<times> state) option" where
  "analyze_track E file_bytes filename is_instrumental timeout retry_csrf tr =
     (case upload E file_bytes filename is_instrumental timeout retry_csrf tr of
        (Inl e, s2) \<Rightarrow> Some (Inl e, s2)
      | (Inr r, s2) \<Rightarrow>
          if status_code r \<noteq> 200 then
            (let text0 = resp_text r;
                 text1 = (if length text0 > 4000 then take 4000 text0 @ ellipsis else text0)
             in Some (Inl (RuntimeError (''Upload failed ('' @ py_str E (PInt (status_code r))
                                          @ ''): '' @ text1)), s2))
          else
            (case json r of
               None \<Rightarrow>
                 Some (Inl (RuntimeError (''Upload returned non-JSON response: ''
                                           @ take 500 (resp_text r))), s2)
             | Some (PDict resp) \<Rightarrow>
                 if truthy (dict_get resp ''results'') then Some (Inr (PDict resp), s2)
                 else
                   (let file_id = dict_get resp ''file_id'' in
                    if \<not> truthy file_id then
                      Some (Inl (RuntimeError (''No file_id in upload response: ''
                                                @ take 500 (json_dumps E (PDict resp)))), s2)
                    else
                      (case poll_json_results E file_id timeout s2 of
                         None \<Rightarrow> None
                       | Some (Inl e, s3) \<Rightarrow> Some (Inl e, s3)
                       | Some (Inr json_results, s3) \<Rightarrow>
                           if truthy json_results then
                             (case json_results of
                                PDict j \<Rightarrow>
                                  Some (Inr (PDict (setdefault (setdefault j ''file_id'' file_id)
                                                      ''filename'' (PStr filename))), s3)
                              | v \<Rightarrow> Some (Inl (no_attribute v ''setdefault''), s3))
                           else Some (Inr (visuals_fallback E file_id filename), s3)))
             | Some v \<Rightarrow> Some (Inl (no_attribute v ''get''), s2)))"

section \<open>analyze\_service.py\<close>

text \<open>
  The uploaded file, as the handler uses it: \<^verbatim>\<open>song.filename\<close> and what
  \<^verbatim>\<open>await song.read()\<close> gives.
\<close>

record upload_file =
  song_filename :: "string option"
  song_read :: "exn + bytes"

datatype http_result = JSONResponse pyval | HTTPException int string

text \<open>\<^verbatim>\<open>type(e).__name__\<close> and \<^verbatim>\<open>str(e)\<close>\<close>

fun exn_name :: "exn \<Rightarrow> string" where
  "exn_name (RuntimeError m) = ''RuntimeError''"
| "exn_name (ValueError m) = ''ValueError''"
| "exn_name (AttributeError m) = ''AttributeError''"
| "exn_name (HTTPError r) = ''HTTPError''"
| "exn_name (LibraryError n m) = n"

fun exn_str :: "env \<Rightarrow> exn \<Rightarrow> string" where
  "exn_str E (RuntimeError m) = m"
| "exn_str E (ValueError m) = m"
| "exn_str E (AttributeError m) = m"
| "exn_str E (HTTPError r) = http_error_str E r"
| "exn_str E (LibraryError n m) = m"

text \<open>The \<^verbatim>\<open>except Exception\<close> clause of the handler.\<close>

definition handle :: "env \<Rightarrow> exn \<Rightarrow> event list \<Rightarrow> http_result \<times> event list" where
  "handle E e tr =
     (HTTPException 500 (exn_name e @ '': '' @ exn_str E e), tr @ [PrintExc])"

text \<open>The handler of \<^verbatim>\<open>POST /analyze\<close>; \<open>tr\<close> is the history before the request.\<close>

definition analyze ::
  "env \<Rightarrow> upload_file \<Rightarrow> bool \<Rightarrow> int \<Rightarrow> event list \<Rightarrow> (http_result \<times> event list) option" where
  "analyze E song instrumental timeout tr =
     (case song_read song of
        Inl e \<Rightarrow> Some (handle E e tr)
      | Inr audio_bytes \<Rightarrow>
          if audio_bytes = [] then Some (handle E (ValueError ''Uploaded file is empty'') tr)
          else
            (case analyze_track E audio_bytes
                    (case song_filename song of
                       None \<Rightarrow> ''upload.mp3''
                     | Some f \<Rightarrow> if f \<noteq> [] then f else ''upload.mp3'')
                    instrumental timeout True tr of
               None \<Rightarrow> None
             | Some (Inl e, s') \<Rightarrow> Some (handle E e (trace s'))
             | Some (Inr result, s') \<Rightarrow>
                 (case render E result of
                    Inl e \<Rightarrow> Some (handle E e (trace s'))
                  | Inr body \<Rightarrow> Some (JSONResponse result, trace s'))))"

section \<open>Observations and example environments\<close>

text \<open>The events that are requests to the remote host.\<close>

definition is_request :: "event \<Rightarrow> bool" where
  "is_request ev = (case ev of Get _ _ _ _ \<Rightarrow> True | Post _ _ _ _ _ _ \<Rightarrow> True | _ \<Rightarrow> False)"

text \<open>
  \<open>busy hs url n\<close>: \<open>n\<close> rounds of the polling loop in which nothing happens but the
  reading of the clock and the request.
\<close>

definition busy :: "pydict \<Rightarrow> string \<Rightarrow> nat \<Rightarrow> event list" where
  "busy hs url n = concat (replicate n [Time, Get hs url None 15])"

text \<open>
  A remote host that answers the \<open>n\<close>-th request of a history with the \<open>n\<close>-th entry of
  a script, and every later one with \<open>dflt\<close>.
\<close>

definition scripted :: "(exn + response) list \<Rightarrow> (exn + response) \<Rightarrow> event list \<Rightarrow> exn + response" where
  "scripted rs dflt tr =
     (let n = length (filter is_request tr) in
      if 0 < n \<and> n \<le> length rs then rs ! (n - 1) else dflt)"

definition unreachable :: "exn + response" where
  "unreachable = Inl (LibraryError ''ConnectionError'' ''no route to host'')"

definition response_of :: "int \<Rightarrow> pyval \<Rightarrow> response" where
  "response_of code v =
     \<lparr>status_code = code, content_type = Some ''application/json'', resp_text = [],
      json = Some v\<rparr>"

definition reply :: "int \<Rightarrow> pyval \<Rightarrow> exn + response" where
  "reply code v = Inr (response_of code v)"

text \<open>
  The configuration the source defaults to, a clock that advances by one with every
  event, and a given remote host.
\<close>

definition demo_env :: "(event list \<Rightarrow> exn + response) \<Rightarrow> env" where
  "demo_env h =
     \<lparr>BASE = ''https://mixanalytic.com'', UPLOAD_PATH = ''/upload'',
      RESULTS_JSON_PATH = [Lit ''/api/results/'', FileId, Lit ''.json''],
      http = h, clock = (\<lambda>tr. of_nat (length tr)),
      py_repr = (\<lambda>v. ''?''), json_dumps = (\<lambda>v. ''?''), guess_type = (\<lambda>f. None),
      http_error_str = (\<lambda>r. ''error''), render = (\<lambda>v. Inr []), default_headers = []\<rparr>"

text \<open>A 200 response that is a web page, not JSON.\<close>

definition html_page :: response where
  "html_page =
     \<lparr>status_code = 200, content_type = Some ''text/html; charset=utf-8'',
      resp_text = ''<html></html>'', json = None\<rparr>"

definition token_reply :: "exn + response" where
  "token_reply = reply 200 (PDict [(''csrf_token'', PStr ''tok'')])"

definition job_reply :: "exn + response" where
  "job_reply = reply 200 (PDict [(''file_id'', PStr ''abc'')])"

text \<open>
  A remote host that hands out the token, accepts the upload as job \<^verbatim>\<open>abc\<close>, and
  answers every poll with \<open>x\<close>.
\<close>

definition polled_env :: "(exn + response) \<Rightarrow> env" where
  "polled_env x = demo_env (scripted [token_reply, job_reply] x)"

section \<open>Dictionaries and single steps\<close>

lemma map_of_dict_set: "map_of (dict_set d k v) = (map_of d)(k \<mapsto> v)"
  by (induction d) (auto simp: fun_eq_iff)

lemma dict_get_dict_set: "dict_get (dict_set d k v) k' = (if k' = k then v else dict_get d k')"
  by (simp add: dict_get_def map_of_dict_set)

lemma refreshed_headers:
  "dict_get (dict_update headers (browser_like_post_headers E tok)) ''X-CSRFToken'' = tok"
  by (simp add: dict_update_def browser_like_post_headers_def dict_get_dict_set)

lemma setdefault_twice:
  "setdefault (setdefault j ''file_id'' a) ''filename'' b =
     j @ (if ''file_id'' \<in> fst ` set j then [] else [(''file_id'', a)])
       @ (if ''filename'' \<in> fst ` set j then [] else [(''filename'', b)])"
  by (simp add: setdefault_def)

text \<open>A call of \<^verbatim>\<open>_get_csrf\<close> sends one request, whatever comes of it.\<close>

lemma get_csrf_trace:
  "trace (snd (get_csrf E t s)) = trace s @ [csrf_request E (sess s) t]"
  by (auto simp: get_csrf_def request_def Let_def
           split: sum.splits option.splits pyval.splits prod.splits)

lemma get_csrf_reply:
  assumes "http E (trace s @ [csrf_request E (sess s) t]) = Inr r"
  shows "get_csrf E t s =
     (let s1 = s\<lparr>trace := trace s @ [csrf_request E (sess s) t]\<rparr> in
      case raise_for_status r of
        Some e \<Rightarrow> (Inl e, s1)
      | None \<Rightarrow>
          (case json r of
             None \<Rightarrow>
               (Inl (RuntimeError (''Could not parse CSRF response as JSON: ''
                                    @ take 300 (resp_text r))), s1)
           | Some (PDict d) \<Rightarrow>
               (let token = py_or (dict_get d ''csrf_token'') (dict_get d ''csrfToken'') in
                if \<not> truthy token then
                  (Inl (RuntimeError (''Could not fetch CSRF token: payload keys=''
                                       @ py_repr E (PList (map (PStr \<circ> fst) d)))), s1)
                else (Inr token, s1\<lparr>sess := dict_set (sess s1) ''X-CSRFToken'' token\<rparr>))
           | Some v \<Rightarrow> (Inl (no_attribute v ''get''), s1)))"
  using assms by (simp add: get_csrf_def request_def Let_def)

text \<open>What \<^verbatim>\<open>analyze_track\<close> does with a 200 upload response that parsed to a dict.\<close>

lemma analyze_track_json:
  assumes "upload E file_bytes filename is_instrumental timeout retry_csrf tr = (Inr r, s2)"
      and "status_code r = 200" and "json r = Some (PDict resp)"
  shows "analyze_track E file_bytes filename is_instrumental timeout retry_csrf tr =
      (if truthy (dict_get resp ''results'') then Some (Inr (PDict resp), s2)
       else
         (let file_id = dict_get resp ''file_id'' in
          if \<not> truthy file_id then
            Some (Inl (RuntimeError (''No file_id in upload response: ''
                                      @ take 500 (json_dumps E (PDict resp)))), s2)
          else
            (case poll_json_results E file_id timeout s2 of
               None \<Rightarrow> None
             | Some (Inl e, s3) \<Rightarrow> Some (Inl e, s3)
             | Some (Inr json_results, s3) \<Rightarrow>
                 if truthy json_results then
                   (case json_results of
                      PDict j \<Rightarrow>
                        Some (Inr (PDict (setdefault (setdefault j ''file_id'' file_id)
                                            ''filename'' (PStr filename))), s3)
                    | v \<Rightarrow> Some (Inl (no_attribute v ''setdefault''), s3))
                 else Some (Inr (visuals_fallback E file_id filename), s3))))"
  using assms by (simp add: analyze_track_def)

section \<open>The polling loop, one round at a time\<close>

lemma poll_loop_timeout:
  assumes "\<not> clock E (trace s @ [Time]) - start < of_int timeout"
  shows "poll_loop E url start timeout s = Some (Inr PNone, s\<lparr>trace := trace s @ [Time]\<rparr>)"
  using assms by (subst poll_loop.simps) (simp add: time_now_def)

lemma poll_loop_raise:
  assumes "clock E (trace s @ [Time]) - start < of_int timeout"
      and "http E (trace s @ [Time, Get (sess s) url None 15]) = Inl e"
  shows "poll_loop E url start timeout s =
           Some (Inl e, s\<lparr>trace := trace s @ [Time, Get (sess s) url None 15]\<rparr>)"
  using assms by (subst poll_loop.simps) (simp add: time_now_def request_def)

lemma poll_loop_reply:
  assumes "clock E (trace s @ [Time]) - start < of_int timeout"
      and "http E (trace s @ [Time, Get (sess s) url None 15]) = Inr r"
  shows "poll_loop E url start timeout s =
     (let s2 = s\<lparr>trace := trace s @ [Time, Get (sess s) url None 15]\<rparr> in
      if status_code r = 200 then
        (if startswith (case content_type r of None \<Rightarrow> [] | Some c \<Rightarrow> c) ''application/json''
         then
           (case json r of
              Some v \<Rightarrow> Some (Inr v, s2)
            | None \<Rightarrow> poll_loop E url start timeout (sleep 2 s2))
         else poll_loop E url start timeout s2)
      else if status_code r \<in> {404, 403} then poll_loop E url start timeout (sleep 3 s2)
      else poll_loop E url start timeout (sleep 2 s2))"
  using assms
  by (subst poll_loop.simps) (simp add: time_now_def request_def Let_def split: option.split)

text \<open>
  If the clock is past the deadline in every history of \<open>N\<close> events or more, and no poll
  request raises, the loop ends without an exception: with \<^verbatim>\<open>None\<close>, or with the
  parsed body of one of the responses.
\<close>

lemma poll_loop_total:
  assumes late: "\<forall>h. N \<le> length h \<longrightarrow> of_int timeout \<le> clock E h - start"
      and ok: "\<forall>h hs. \<exists>r. http E (h @ [Get hs url None 15]) = Inr r \<and> P r"
  shows "\<exists>v s'. poll_loop E url start timeout s = Some (Inr v, s') \<and>
           (v = PNone \<or> (\<exists>r. P r \<and> json r = Some v))"
proof (induction "N - length (trace s)" arbitrary: s rule: less_induct)
  case less
  show ?case
  proof (cases "clock E (trace s @ [Time]) - start < of_int timeout")
    case False
    then show ?thesis by (simp add: poll_loop_timeout)
  next
    case True
    have len: "length (trace s) < N"
    proof (rule ccontr)
      assume "\<not> length (trace s) < N"
      then have "N \<le> length (trace s @ [Time])" by simp
      with late have "of_int timeout \<le> clock E (trace s @ [Time]) - start" by blast
      with True show False by simp
    qed
    from ok obtain r
      where r: "http E ((trace s @ [Time]) @ [Get (sess s) url None 15]) = Inr r" "P r"
      by blast
    let ?s2 = "s\<lparr>trace := trace s @ [Time, Get (sess s) url None 15]\<rparr>"
    let ?json = "startswith (case content_type r of None \<Rightarrow> [] | Some c \<Rightarrow> c) ''application/json''"
    have m2: "N - length (trace ?s2) < N - length (trace s)"
      and m3: "\<And>n. N - length (trace (sleep n ?s2)) < N - length (trace s)"
      using len by (auto simp: sleep_def)
    from r(1) have r': "http E (trace s @ [Time, Get (sess s) url None 15]) = Inr r"
      by simp
    note eq = poll_loop_reply [OF True r']
    consider (a) "status_code r = 200" "?json" "json r = None"
      | (b) v where "status_code r = 200" "?json" "json r = Some v"
      | (c) "status_code r = 200" "\<not> ?json"
      | (d) "status_code r \<noteq> 200" "status_code r \<in> {404, 403}"
      | (e) "status_code r \<noteq> 200" "status_code r \<notin> {404, 403}"
      by (cases "json r") auto
    then show ?thesis
    proof cases
      case a
      then have "poll_loop E url start timeout s = poll_loop E url start timeout (sleep 2 ?s2)"
        by (simp add: eq)
      then show ?thesis using less [OF m3 [of 2]] by simp
    next
      case b
      then have "poll_loop E url start timeout s = Some (Inr v, ?s2)"
        by (simp add: eq)
      then show ?thesis using r(2) b(3) by auto
    next
      case c
      then have "poll_loop E url start timeout s = poll_loop E url start timeout ?s2"
        by (simp add: eq)
      then show ?thesis using less [OF m2] by simp
    next
      case d
      then have "poll_loop E url start timeout s = poll_loop E url start timeout (sleep 3 ?s2)"
        by (simp only: eq Let_def if_True if_False)
      then show ?thesis using less [OF m3 [of 3]] by simp
    next
      case e
      then have "poll_loop E url start timeout s = poll_loop E url start timeout (sleep 2 ?s2)"
        by (simp only: eq Let_def if_True if_False)
      then show ?thesis using less [OF m3 [of 2]] by simp
    qed
  qed
qed

section \<open>Evaluating the example environments\<close>

lemma http_demo_env [simp]: "http (demo_env h) = h"
  and clock_demo_env [simp]: "clock (demo_env h) tr = of_nat (length tr)"
  and base_demo_env [simp]: "BASE (demo_env h) = ''https://mixanalytic.com''"
  by (simp_all add: demo_env_def)

lemma scripted_nth:
  assumes "length (filter is_request tr) = Suc n" and "n < length rs"
  shows "scripted rs dflt tr = rs ! n"
  using assms by (simp add: scripted_def)

lemma scripted_default:
  assumes "length rs < length (filter is_request tr)"
  shows "scripted rs dflt tr = dflt"
  using assms by (simp add: scripted_def)

lemma scripted_range: "scripted rs dflt tr \<in> insert dflt (set rs)"
proof (cases "filter is_request tr")
  case Nil
  then show ?thesis by (simp add: scripted_def)
next
  case (Cons ev evs)
  then have "length (filter is_request tr) = Suc (length evs)" by simp
  then show ?thesis
    by (cases "length evs < length rs") (simp_all add: scripted_def Let_def)
qed

lemma response_of_simps [simp]:
  "status_code (response_of code v) = code"
  "json (response_of code v) = Some v"
  "content_type (response_of code v) = Some ''application/json''"
  by (simp_all add: response_of_def)

text \<open>
  In an example environment whose script starts with a token and a 200 response to the
  upload, the upload phase ends with that response after two requests.
\<close>

lemma demo_upload:
  assumes "status_code r = 200"
  shows "\<exists>g p hs.
           upload (demo_env (scripted (token_reply # Inr r # rs) dflt)) file_bytes filename
             is_instrumental timeout retry_csrf [] = (Inr r, \<lparr>trace = [g, p], sess = hs\<rparr>)
           \<and> is_request g \<and> is_request p"
  using assms
  by (simp add: upload_def get_csrf_def request_def csrf_request_def scripted_def
        is_request_def token_reply_def reply_def raise_for_status_def py_or_def dict_get_def
        post_with_optional_retry_def do_post_def Let_def)

section \<open>The claims\<close>

text \<open>
  C5. A request to \<^verbatim>\<open>/analyze\<close> whose file reads as no bytes at all fails with the
  input error before any request goes out: the answer is the 500 response for
  \<^verbatim>\<open>ValueError("Uploaded file is empty")\<close>, and the history gains the printing of the
  traceback and no request (no token fetch, no upload, no poll).
\<close>

theorem analyze_empty_upload:
  assumes "song_read song = Inr []"
  shows "analyze E song instrumental timeout tr =
           Some (HTTPException 500 ''ValueError: Uploaded file is empty'', tr @ [PrintExc]) \<and>
         filter is_request (tr @ [PrintExc]) = filter is_request tr"
  using assms by (simp add: analyze_def handle_def is_request_def)

theorem analyze_empty_upload_witness:
  "song_read \<lparr>song_filename = Some ''a.mp3'', song_read = Inr []\<rparr> = Inr [] \<and>
   analyze (demo_env (scripted [] unreachable))
     \<lparr>song_filename = Some ''a.mp3'', song_read = Inr []\<rparr> False 180 [] =
     Some (HTTPException 500 ''ValueError: Uploaded file is empty'', [PrintExc])"
  using analyze_empty_upload
    [where song = "\<lparr>song_filename = Some ''a.mp3'', song_read = Inr []\<rparr>"
       and E = "demo_env (scripted [] unreachable)" and instrumental = False
       and timeout = 180 and tr = "[]"]
  by simp

text \<open>
  C7. The visuals fallback for a file id and a filename is a mapping with that file id
  under \<^verbatim>\<open>file_id\<close>, that filename under \<^verbatim>\<open>filename\<close>, the status
  \<^verbatim>\<open>visuals_ready_only\<close>, and under \<^verbatim>\<open>visualizations\<close> exactly the eight names
  waveform, spectrogram, spectrum, chromagram, stereo\_field, vectorscope, dynamic\_range
  and spatial\_field, each with the URL \<^verbatim>\<open>{base}/static/uploads/{file_id}/{name}.png\<close>.
\<close>

theorem visuals_fallback_shape:
  "(case visuals_fallback E file_id filename of
      PDict d \<Rightarrow>
        dict_get d ''file_id'' = file_id \<and>
        dict_get d ''filename'' = PStr filename \<and>
        dict_get d ''status'' = PStr ''visuals_ready_only'' \<and>
        (case dict_get d ''visualizations'' of
           PDict vis \<Rightarrow>
             map fst vis = [''waveform'', ''spectrogram'', ''spectrum'', ''chromagram'',
                            ''stereo_field'', ''vectorscope'', ''dynamic_range'',
                            ''spatial_field''] \<and>
             map snd vis =
               map (\<lambda>name. PStr (BASE E @ ''/static/uploads/'' @ py_str E file_id @ ''/''
                                   @ name @ ''.png'')) (map fst vis)
         | _ \<Rightarrow> False)
    | _ \<Rightarrow> False)"
  by (simp add: visuals_fallback_def dict_get_def Let_def)

theorem visuals_fallback_shape_witness:
  "(case visuals_fallback (demo_env (scripted [] unreachable)) (PStr ''abc'') ''a.mp3'' of
      PDict d \<Rightarrow>
        (case dict_get d ''visualizations'' of
           PDict vis \<Rightarrow>
             length vis = 8 \<and>
             dict_get vis ''waveform'' =
               PStr ''https://mixanalytic.com/static/uploads/abc/waveform.png''
         | _ \<Rightarrow> False)
    | _ \<Rightarrow> False)"
  using visuals_fallback_shape
    [where E = "demo_env (scripted [] unreachable)" and file_id = "PStr ''abc''"
       and filename = "''a.mp3''"]
  by (simp add: visuals_fallback_def dict_get_def Let_def)

text \<open>
  C4. When the upload ends with a 200 response whose parsed JSON has a non-empty
  (truthy) \<^verbatim>\<open>results\<close> field, \<^verbatim>\<open>analyze_track\<close> returns that parsed response as it
  is, in the state the upload left: no request follows the upload, so none polls.
\<close>

theorem analyze_track_cached_results:
  assumes "upload E file_bytes filename is_instrumental timeout retry_csrf tr = (Inr r, s2)"
      and "status_code r = 200" and "json r = Some (PDict resp)"
      and "truthy (dict_get resp ''results'')"
  shows "analyze_track E file_bytes filename is_instrumental timeout retry_csrf tr =
           Some (Inr (PDict resp), s2)"
  using assms by (simp add: analyze_track_json)

theorem analyze_track_cached_results_witness:
  "fst (upload (demo_env (scripted [token_reply,
               reply 200 (PDict [(''results'', PDict [(''score'', PInt 7)])])] unreachable))
          [1] ''a.mp3'' False 180 True []) =
     Inr (response_of 200 (PDict [(''results'', PDict [(''score'', PInt 7)])])) \<and>
   truthy (dict_get [(''results'', PDict [(''score'', PInt 7)])] ''results'') \<and>
   map_option fst
     (analyze_track (demo_env (scripted [token_reply,
               reply 200 (PDict [(''results'', PDict [(''score'', PInt 7)])])] unreachable))
        [1] ''a.mp3'' False 180 True []) =
     Some (Inr (PDict [(''results'', PDict [(''score'', PInt 7)])]))"
proof -
  let ?r = "response_of 200 (PDict [(''results'', PDict [(''score'', PInt 7)])])"
  let ?E = "demo_env (scripted [token_reply, Inr ?r] unreachable)"
  obtain g p hs
    where u: "upload ?E [1] ''a.mp3'' False 180 True [] = (Inr ?r, \<lparr>trace = [g, p], sess = hs\<rparr>)"
    using demo_upload
      [where r = ?r and rs = "[]" and dflt = unreachable and file_bytes = "[1]"
         and filename = "''a.mp3''" and is_instrumental = False and timeout = 180
         and retry_csrf = True]
    by auto
  from analyze_track_cached_results
    [OF u, where resp = "[(''results'', PDict [(''score'', PInt 7)])]"] u
  show ?thesis by (simp add: reply_def dict_get_def)
qed

text \<open>
  C8. When the upload ends with a 200 response whose parsed JSON has no non-empty
  \<^verbatim>\<open>results\<close> field and no \<^verbatim>\<open>file_id\<close>, \<^verbatim>\<open>analyze_track\<close> raises in the state
  the upload left, so before any poll: the \<^verbatim>\<open>RuntimeError\<close>
  \<^verbatim>\<open>No file_id in upload response\<close> for a JSON object, and the
  \<^verbatim>\<open>AttributeError\<close> of the failed \<^verbatim>\<open>.get\<close> for any other JSON value.
\<close>

theorem analyze_track_missing_file_id:
  assumes "upload E file_bytes filename is_instrumental timeout retry_csrf tr = (Inr r, s2)"
      and "status_code r = 200" and "json r = Some v"
      and "\<forall>resp. v = PDict resp \<longrightarrow>
             \<not> truthy (dict_get resp ''results'') \<and> map_of resp ''file_id'' = None"
  shows "analyze_track E file_bytes filename is_instrumental timeout retry_csrf tr =
           Some (Inl (case v of
                        PDict resp \<Rightarrow>
                          RuntimeError (''No file_id in upload response: ''
                                        @ take 500 (json_dumps E (PDict resp)))
                      | _ \<Rightarrow> no_attribute v ''get''), s2)"
  using assms by (cases v) (simp_all add: analyze_track_def dict_get_def)

theorem analyze_track_missing_file_id_witness:
  "fst (upload (demo_env (scripted [token_reply,
               reply 200 (PDict [(''status'', PStr ''queued'')])] unreachable))
          [1] ''a.mp3'' False 180 True []) =
     Inr (response_of 200 (PDict [(''status'', PStr ''queued'')])) \<and>
   \<not> truthy (dict_get [(''status'', PStr ''queued'')] ''results'') \<and>
   map_of [(''status'', PStr ''queued'')] ''file_id'' = None \<and>
   map_option fst
     (analyze_track (demo_env (scripted [token_reply,
               reply 200 (PDict [(''status'', PStr ''queued'')])] unreachable))
        [1] ''a.mp3'' False 180 True []) =
     Some (Inl (RuntimeError ''No file_id in upload response: ?''))"
proof -
  let ?r = "response_of 200 (PDict [(''status'', PStr ''queued'')])"
  let ?E = "demo_env (scripted [token_reply, Inr ?r] unreachable)"
  obtain g p hs
    where u: "upload ?E [1] ''a.mp3'' False 180 True [] = (Inr ?r, \<lparr>trace = [g, p], sess = hs\<rparr>)"
    using demo_upload
      [where r = ?r and rs = "[]" and dflt = unreachable and file_bytes = "[1]"
         and filename = "''a.mp3''" and is_instrumental = False and timeout = 180
         and retry_csrf = True]
    by auto
  from analyze_track_missing_file_id
    [OF u, where v = "PDict [(''status'', PStr ''queued'')]"] u
  show ?thesis by (simp add: reply_def dict_get_def demo_env_def)
qed

text \<open>
  C10. When the upload ends with a 200 response whose parsed JSON has no non-empty
  \<^verbatim>\<open>results\<close> field and has the key \<^verbatim>\<open>file_id\<close> with a falsy value (the empty
  string, null, 0, false, or any other value Python takes for false),
  \<^verbatim>\<open>analyze_track\<close> raises the error it raises when the key is absent: the
  \<^verbatim>\<open>RuntimeError\<close> \<^verbatim>\<open>No file_id in upload response\<close> with the dumped response, in
  the state the upload left.
\<close>

theorem analyze_track_falsy_file_id:
  assumes "upload E file_bytes filename is_instrumental timeout retry_csrf tr = (Inr r, s2)"
      and "status_code r = 200" and "json r = Some (PDict resp)"
      and "\<not> truthy (dict_get resp ''results'')"
      and "map_of resp ''file_id'' = Some fid"
      and "\<not> truthy fid"
  shows "analyze_track E file_bytes filename is_instrumental timeout retry_csrf tr =
           Some (Inl (RuntimeError (''No file_id in upload response: ''
                                     @ take 500 (json_dumps E (PDict resp)))), s2)"
  using assms by (simp add: analyze_track_json dict_get_def)

theorem analyze_track_falsy_file_id_witness:
  "fst (upload (demo_env (scripted [token_reply,
               reply 200 (PDict [(''file_id'', PStr [])])] unreachable))
          [1] ''a.mp3'' False 180 True []) =
     Inr (response_of 200 (PDict [(''file_id'', PStr [])])) \<and>
   \<not> truthy (dict_get [(''file_id'', PStr [])] ''results'') \<and>
   map_of [(''file_id'', PStr [])] ''file_id'' = Some (PStr []) \<and>
   map_option fst
     (analyze_track (demo_env (scripted [token_reply,
               reply 200 (PDict [(''file_id'', PStr [])])] unreachable))
        [1] ''a.mp3'' False 180 True []) =
     Some (Inl (RuntimeError ''No file_id in upload response: ?''))"
proof -
  let ?r = "response_of 200 (PDict [(''file_id'', PStr [])])"
  let ?E = "demo_env (scripted [token_reply, Inr ?r] unreachable)"
  obtain g p hs
    where u: "upload ?E [1] ''a.mp3'' False 180 True [] = (Inr ?r, \<lparr>trace = [g, p], sess = hs\<rparr>)"
    using demo_upload
      [where r = ?r and rs = "[]" and dflt = unreachable and file_bytes = "[1]"
         and filename = "''a.mp3''" and is_instrumental = False and timeout = 180
         and retry_csrf = True]
    by auto
  from analyze_track_falsy_file_id
    [OF u, where resp = "[(''file_id'', PStr [])]" and fid = "PStr []"] u
  show ?thesis by (simp add: reply_def dict_get_def demo_env_def)
qed

text \<open>
  C6, as the code has it. For a response to the token request:
  with a status from 400 to 599, \<^verbatim>\<open>_get_csrf\<close> raises the \<^verbatim>\<open>HTTPError\<close> of
  \<^verbatim>\<open>raise_for_status\<close>, whatever the body holds. With any other status: a body that
  is not JSON raises the \<^verbatim>\<open>RuntimeError\<close> \<^verbatim>\<open>Could not parse CSRF response as JSON\<close>;
  a JSON object with a truthy value under \<^verbatim>\<open>csrf_token\<close> returns that value; one
  with none there and a truthy value under \<^verbatim>\<open>csrfToken\<close> returns that one; one with
  neither raises the \<^verbatim>\<open>RuntimeError\<close> \<^verbatim>\<open>Could not fetch CSRF token\<close>.
  (A JSON body that is not an object is left out here.)
\<close>

theorem get_csrf_token_extraction:
  assumes "http E (trace s @ [csrf_request E (sess s) t]) = Inr r"
  shows "(400 \<le> status_code r \<and> status_code r < 600 \<longrightarrow>
            fst (get_csrf E t s) = Inl (HTTPError r)) \<and>
         (\<not> (400 \<le> status_code r \<and> status_code r < 600) \<longrightarrow>
            (json r = None \<longrightarrow>
               fst (get_csrf E t s) =
                 Inl (RuntimeError (''Could not parse CSRF response as JSON: ''
                                     @ take 300 (resp_text r)))) \<and>
            (\<forall>d. json r = Some (PDict d) \<longrightarrow>
               (truthy (dict_get d ''csrf_token'') \<longrightarrow>
                  fst (get_csrf E t s) = Inr (dict_get d ''csrf_token'')) \<and>
               (\<not> truthy (dict_get d ''csrf_token'') \<and> truthy (dict_get d ''csrfToken'') \<longrightarrow>
                  fst (get_csrf E t s) = Inr (dict_get d ''csrfToken'')) \<and>
               (\<not> truthy (dict_get d ''csrf_token'') \<and> \<not> truthy (dict_get d ''csrfToken'') \<longrightarrow>
                  fst (get_csrf E t s) =
                    Inl (RuntimeError (''Could not fetch CSRF token: payload keys=''
                                        @ py_repr E (PList (map (PStr \<circ> fst) d)))))))"
  by (simp add: get_csrf_reply [OF assms] raise_for_status_def py_or_def Let_def)

theorem get_csrf_token_extraction_witness:
  "http (demo_env (scripted [reply 200 (PDict [(''csrfToken'', PStr ''tok'')])] unreachable))
     (trace \<lparr>trace = [], sess = []\<rparr>
        @ [csrf_request
             (demo_env (scripted [reply 200 (PDict [(''csrfToken'', PStr ''tok'')])] unreachable))
             (sess \<lparr>trace = [], sess = []\<rparr>) 20]) =
     Inr (response_of 200 (PDict [(''csrfToken'', PStr ''tok'')])) \<and>
   fst (get_csrf
          (demo_env (scripted [reply 200 (PDict [(''csrfToken'', PStr ''tok'')])] unreachable))
          20 \<lparr>trace = [], sess = []\<rparr>) = Inr (PStr ''tok'')"
proof -
  let ?E = "demo_env (scripted [reply 200 (PDict [(''csrfToken'', PStr ''tok'')])] unreachable)"
  let ?s = "\<lparr>trace = [], sess = []\<rparr>"
  have h: "http ?E (trace ?s @ [csrf_request ?E (sess ?s) 20]) =
             Inr (response_of 200 (PDict [(''csrfToken'', PStr ''tok'')]))"
    by (simp add: scripted_def csrf_request_def is_request_def reply_def)
  from get_csrf_token_extraction [OF h] h show ?thesis
    by (simp add: dict_get_def)
qed

text \<open>
  A token response with status 500 whose body is the JSON object
  \<^verbatim>\<open>{"csrf_token": "tok"}\<close>: the body parses and holds a truthy token, and
  \<^verbatim>\<open>_get_csrf\<close> raises instead of returning it.
\<close>

theorem get_csrf_error_status_counterexample:
  "http (demo_env (scripted [reply 500 (PDict [(''csrf_token'', PStr ''tok'')])] unreachable))
     ([] @ [csrf_request
              (demo_env (scripted [reply 500 (PDict [(''csrf_token'', PStr ''tok'')])]
                 unreachable)) [] 20]) =
     Inr (response_of 500 (PDict [(''csrf_token'', PStr ''tok'')])) \<and>
   json (response_of 500 (PDict [(''csrf_token'', PStr ''tok'')])) =
     Some (PDict [(''csrf_token'', PStr ''tok'')]) \<and>
   truthy (dict_get [(''csrf_token'', PStr ''tok'')] ''csrf_token'') \<and>
   fst (get_csrf
          (demo_env (scripted [reply 500 (PDict [(''csrf_token'', PStr ''tok'')])] unreachable))
          20 \<lparr>trace = [], sess = []\<rparr>) =
     Inl (HTTPError (response_of 500 (PDict [(''csrf_token'', PStr ''tok'')])))"
  by (simp add: get_csrf_def request_def scripted_def csrf_request_def is_request_def
        reply_def raise_for_status_def dict_get_def)

text \<open>
  C1. Let the first POST of \<^verbatim>\<open>_post_with_optional_retry\<close> be answered by a response
  \<open>r0\<close>. If its status is 401 or 403 and the retry is enabled, the token is fetched
  once, with the timeout \<open>min 20 timeout\<close>. If that raises, the exception is swallowed
  and \<open>r0\<close> is returned after those two requests. If it yields a token, the POST is sent
  once more with the token under \<^verbatim>\<open>X-CSRFToken\<close> in the headers and under
  \<^verbatim>\<open>csrf_token\<close> in the body; if that POST raises, the exception is swallowed and
  \<open>r0\<close> is returned; otherwise its response is the current one. Whenever the current
  response (the retried one, or \<open>r0\<close> when no refresh took place) has a status among
  429, 500, 502, 503 and 504, the client sleeps 2 seconds, sends the POST once more and
  returns whatever that gives; otherwise it returns the current response. The history
  shows every branch: at most one token request, at most one sleep, at most three POSTs.
\<close>

theorem post_with_optional_retry_retries:
  assumes "do_post E url files data headers timeout s = (Inr r0, s1)"
  shows
  "(status_code r0 \<in> {401, 403} \<and> retry_csrf \<longrightarrow>
      (case get_csrf E (min 20 timeout) s1 of
         (Inl e, sa) \<Rightarrow>
            trace sa = trace s @ [Post (sess s) url files data headers timeout,
                                  csrf_request E (sess s) (min 20 timeout)] \<and>
            post_with_optional_retry E url files data headers timeout retry_csrf s = (Inr r0, sa)
       | (Inr tok, sa) \<Rightarrow>
           (let headers1 = dict_update headers (browser_like_post_headers E tok);
                data1 = dict_set data ''csrf_token'' tok;
                retried = Post (sess sa) url files data1 headers1 timeout
            in trace sa = trace s @ [Post (sess s) url files data headers timeout,
                                     csrf_request E (sess s) (min 20 timeout)] \<and>
               dict_get headers1 ''X-CSRFToken'' = tok \<and>
               dict_get data1 ''csrf_token'' = tok \<and>
               (case http E (trace sa @ [retried]) of
                  Inl e \<Rightarrow>
                    post_with_optional_retry E url files data headers timeout retry_csrf s =
                      (Inr r0, sa\<lparr>trace := trace sa @ [retried]\<rparr>)
                | Inr r1 \<Rightarrow>
                    if status_code r1 \<in> {429, 500, 502, 503, 504} then
                      post_with_optional_retry E url files data headers timeout retry_csrf s =
                        (http E (trace sa @ [retried, Sleep 2, retried]),
                         sa\<lparr>trace := trace sa @ [retried, Sleep 2, retried]\<rparr>)
                    else
                      post_with_optional_retry E url files data headers timeout retry_csrf s =
                        (Inr r1, sa\<lparr>trace := trace sa @ [retried]\<rparr>))))) \<and>
   (\<not> (status_code r0 \<in> {401, 403} \<and> retry_csrf) \<longrightarrow>
      (if status_code r0 \<in> {429, 500, 502, 503, 504} then
         post_with_optional_retry E url files data headers timeout retry_csrf s =
           (http E (trace s @ [Post (sess s) url files data headers timeout, Sleep 2,
                               Post (sess s) url files data headers timeout]),
            s\<lparr>trace := trace s @ [Post (sess s) url files data headers timeout, Sleep 2,
                                  Post (sess s) url files data headers timeout]\<rparr>)
       else
         post_with_optional_retry E url files data headers timeout retry_csrf s = (Inr r0, s1)))"
proof -
  have s1: "s1 = s\<lparr>trace := trace s @ [Post (sess s) url files data headers timeout]\<rparr>"
    using assms by (auto simp: do_post_def request_def)
  have tr: "\<And>x sa. get_csrf E (min 20 timeout) s1 = (x, sa) \<Longrightarrow>
      trace sa = trace s @ [Post (sess s) url files data headers timeout,
                            csrf_request E (sess s) (min 20 timeout)]"
    using get_csrf_trace [of E "min 20 timeout" s1] by (simp add: s1)
  obtain x sa where g: "get_csrf E (min 20 timeout) s1 = (x, sa)"
    by (cases "get_csrf E (min 20 timeout) s1")
  have auth: ?thesis if a: "status_code r0 \<in> {401, 403} \<and> retry_csrf"
  proof (cases x)
    case (Inl e)
    with a g tr [OF g] assms show ?thesis
      by (auto simp: post_with_optional_retry_def)
  next
    case (Inr tok)
    with a g tr [OF g] assms show ?thesis
      by (auto simp: post_with_optional_retry_def Let_def refreshed_headers dict_get_dict_set
            do_post_def request_def sleep_def split: sum.splits)
  qed
  have plain: ?thesis if "\<not> (status_code r0 \<in> {401, 403} \<and> retry_csrf)"
    using that assms
    by (auto simp: post_with_optional_retry_def s1 do_post_def request_def sleep_def)
  show ?thesis
  proof (cases "status_code r0 \<in> {401, 403} \<and> retry_csrf")
    case True
    then show ?thesis by (rule auth)
  next
    case False
    then show ?thesis by (rule plain)
  qed
qed

theorem post_with_optional_retry_retries_witness:
  "do_post (demo_env (scripted [reply 403 PNone, token_reply, reply 503 PNone,
                                reply 200 (PDict [])] unreachable))
      ''u'' [] [] [] 180 \<lparr>trace = [], sess = []\<rparr> =
     (Inr (response_of 403 PNone), \<lparr>trace = [Post [] ''u'' [] [] [] 180], sess = []\<rparr>) \<and>
   status_code (response_of 403 PNone) \<in> {401, 403} \<and>
   fst (post_with_optional_retry
          (demo_env (scripted [reply 403 PNone, token_reply, reply 503 PNone,
                               reply 200 (PDict [])] unreachable))
          ''u'' [] [] [] 180 True \<lparr>trace = [], sess = []\<rparr>) = reply 200 (PDict []) \<and>
   map is_request
     (trace (snd (post_with_optional_retry
          (demo_env (scripted [reply 403 PNone, token_reply, reply 503 PNone,
                               reply 200 (PDict [])] unreachable))
          ''u'' [] [] [] 180 True \<lparr>trace = [], sess = []\<rparr>))) =
     [True, True, True, False, True]"
proof -
  let ?E = "demo_env (scripted [reply 403 PNone, token_reply, reply 503 PNone,
                                reply 200 (PDict [])] unreachable)"
  have p: "do_post ?E ''u'' [] [] [] 180 \<lparr>trace = [], sess = []\<rparr> =
             (Inr (response_of 403 PNone), \<lparr>trace = [Post [] ''u'' [] [] [] 180], sess = []\<rparr>)"
    by (simp add: do_post_def request_def scripted_def is_request_def reply_def)
  from post_with_optional_retry_retries [OF p, where retry_csrf = True] p
  show ?thesis
    by (simp add: get_csrf_def request_def csrf_request_def scripted_def is_request_def
          token_reply_def reply_def raise_for_status_def py_or_def dict_get_def Let_def)
qed

lemma busy_Suc: "busy hs url (Suc n) = [Time, Get hs url None 15] @ busy hs url n"
  by (simp add: busy_def)

text \<open>
  C9. While the polling loop is within its time and each poll is answered by a 200
  response whose content type does not start with \<^verbatim>\<open>application/json\<close>, a round of
  \<^verbatim>\<open>_poll_json_results\<close> neither returns nor sleeps: after \<open>n\<close> such rounds the loop
  stands where it stood, with a history grown by \<open>n\<close> readings of the clock and \<open>n\<close>
  requests and no sleep. When the clock then shows the timeout elapsed, the loop ends
  with \<^verbatim>\<open>None\<close>.
\<close>

theorem poll_loop_no_backoff:
  assumes "\<forall>i<n. clock E (trace s @ busy (sess s) url i @ [Time]) - start < of_int timeout \<and>
             (\<exists>r. http E (trace s @ busy (sess s) url (Suc i)) = Inr r \<and> status_code r = 200 \<and>
                  \<not> startswith (case content_type r of None \<Rightarrow> [] | Some c \<Rightarrow> c)
                       ''application/json'')"
  shows "poll_loop E url start timeout s =
           poll_loop E url start timeout (s\<lparr>trace := trace s @ busy (sess s) url n\<rparr>) \<and>
         (\<not> clock E (trace s @ busy (sess s) url n @ [Time]) - start < of_int timeout \<longrightarrow>
            poll_loop E url start timeout s =
              Some (Inr PNone, s\<lparr>trace := trace s @ busy (sess s) url n @ [Time]\<rparr>))"
proof -
  have rounds: "poll_loop E url start timeout s =
           poll_loop E url start timeout (s\<lparr>trace := trace s @ busy (sess s) url n\<rparr>)"
    using assms
  proof (induction n arbitrary: s)
    case 0
    then show ?case by (simp add: busy_def)
  next
    case (Suc n)
    let ?s1 = "s\<lparr>trace := trace s @ [Time, Get (sess s) url None 15]\<rparr>"
    from Suc.prems have "0 < Suc n \<longrightarrow>
        clock E (trace s @ busy (sess s) url 0 @ [Time]) - start < of_int timeout \<and>
        (\<exists>r. http E (trace s @ busy (sess s) url (Suc 0)) = Inr r \<and> status_code r = 200 \<and>
             \<not> startswith (case content_type r of None \<Rightarrow> [] | Some c \<Rightarrow> c)
                  ''application/json'')"
      by blast
    then obtain r where t: "clock E (trace s @ [Time]) - start < of_int timeout"
      and r: "http E (trace s @ [Time, Get (sess s) url None 15]) = Inr r"
        "status_code r = 200"
        "\<not> startswith (case content_type r of None \<Rightarrow> [] | Some c \<Rightarrow> c) ''application/json''"
      by (auto simp: busy_def)
    have step: "poll_loop E url start timeout s = poll_loop E url start timeout ?s1"
      using r(2,3) by (simp add: poll_loop_reply [OF t r(1)])
    have "\<forall>i<n. clock E (trace ?s1 @ busy (sess ?s1) url i @ [Time]) - start < of_int timeout \<and>
             (\<exists>r. http E (trace ?s1 @ busy (sess ?s1) url (Suc i)) = Inr r \<and> status_code r = 200 \<and>
                  \<not> startswith (case content_type r of None \<Rightarrow> [] | Some c \<Rightarrow> c)
                       ''application/json'')"
    proof (intro allI impI)
      fix i assume "i < n"
      then have "Suc i < Suc n" by simp
      with Suc.prems have
        "clock E (trace s @ busy (sess s) url (Suc i) @ [Time]) - start < of_int timeout \<and>
         (\<exists>r. http E (trace s @ busy (sess s) url (Suc (Suc i))) = Inr r \<and> status_code r = 200 \<and>
              \<not> startswith (case content_type r of None \<Rightarrow> [] | Some c \<Rightarrow> c)
                   ''application/json'')"
        by blast
      then show "clock E (trace ?s1 @ busy (sess ?s1) url i @ [Time]) - start < of_int timeout \<and>
             (\<exists>r. http E (trace ?s1 @ busy (sess ?s1) url (Suc i)) = Inr r \<and> status_code r = 200 \<and>
                  \<not> startswith (case content_type r of None \<Rightarrow> [] | Some c \<Rightarrow> c)
                       ''application/json'')"
        by (simp add: busy_Suc)
    qed
    from Suc.IH [OF this] step show ?case
      by (simp add: busy_Suc)
  qed
  show ?thesis
  proof (intro conjI impI)
    show "poll_loop E url start timeout s =
           poll_loop E url start timeout (s\<lparr>trace := trace s @ busy (sess s) url n\<rparr>)"
      by (rule rounds)
  next
    assume "\<not> clock E (trace s @ busy (sess s) url n @ [Time]) - start < of_int timeout"
    then have "poll_loop E url start timeout (s\<lparr>trace := trace s @ busy (sess s) url n\<rparr>) =
        Some (Inr PNone, s\<lparr>trace := trace s @ busy (sess s) url n @ [Time]\<rparr>)"
      by (simp add: poll_loop_timeout)
    with rounds show "poll_loop E url start timeout s =
        Some (Inr PNone, s\<lparr>trace := trace s @ busy (sess s) url n @ [Time]\<rparr>)"
      by simp
  qed
qed

theorem poll_loop_no_backoff_witness:
  "poll_loop (demo_env (scripted [] (Inr html_page))) ''u'' 0 4 \<lparr>trace = [], sess = []\<rparr> =
     Some (Inr PNone,
           \<lparr>trace = [Time, Get [] ''u'' None 15, Time, Get [] ''u'' None 15, Time],
            sess = []\<rparr>)"
proof -
  let ?E = "demo_env (scripted [] (Inr html_page))"
  let ?s = "\<lparr>trace = [], sess = []\<rparr>"
  have h: "\<forall>i<2. clock ?E (trace ?s @ busy (sess ?s) ''u'' i @ [Time]) - 0 < of_int 4 \<and>
             (\<exists>r. http ?E (trace ?s @ busy (sess ?s) ''u'' (Suc i)) = Inr r \<and> status_code r = 200 \<and>
                  \<not> startswith (case content_type r of None \<Rightarrow> [] | Some c \<Rightarrow> c)
                       ''application/json'')"
    by (auto simp: less_2_cases_iff busy_def scripted_def is_request_def html_page_def
          startswith_def)
  from poll_loop_no_backoff [OF h, THEN conjunct2] show ?thesis
    by (simp add: busy_def numeral_2_eq_2)
qed

text \<open>
  In \<open>polled_env x\<close> the upload ends with the job response after two requests, and the
  first poll is answered by \<open>x\<close>.
\<close>

lemma polled_upload:
  "\<exists>g p hs.
     upload (polled_env x) file_bytes filename is_instrumental timeout retry_csrf [] =
       (Inr (response_of 200 (PDict [(''file_id'', PStr ''abc'')])),
        \<lparr>trace = [g, p], sess = hs\<rparr>)
     \<and> is_request g \<and> is_request p"
  using demo_upload
    [where r = "response_of 200 (PDict [(''file_id'', PStr ''abc'')])" and rs = "[]"
       and dflt = x]
  by (simp add: polled_env_def job_reply_def reply_def)

lemma polled_first_poll:
  assumes "is_request g" and "is_request p" and "1 < timeout"
  shows "poll_json_results (polled_env x) fid timeout \<lparr>trace = [g, p], sess = hs\<rparr> =
           (let url = BASE (polled_env x)
                        @ format_path (polled_env x) (RESULTS_JSON_PATH (polled_env x)) fid;
                s = \<lparr>trace = [g, p, Time, Time, Get hs url None 15], sess = hs\<rparr>
            in case x of
                 Inl e \<Rightarrow> Some (Inl e, s)
               | Inr r \<Rightarrow>
                   poll_loop (polled_env x) url 3 timeout \<lparr>trace = [g, p, Time], sess = hs\<rparr>)"
proof (cases x)
  case (Inl e)
  have "poll_loop (polled_env x) url 3 timeout \<lparr>trace = [g, p, Time], sess = hs\<rparr> =
          Some (Inl e, \<lparr>trace = [g, p, Time, Time, Get hs url None 15], sess = hs\<rparr>)" for url
    using assms Inl
    by (subst poll_loop_raise [where e = e])
       (simp_all add: polled_env_def scripted_def is_request_def)
  then show ?thesis
    using Inl by (simp add: poll_json_results_def time_now_def Let_def polled_env_def)
next
  case (Inr r)
  then show ?thesis
    by (simp add: poll_json_results_def time_now_def Let_def polled_env_def)
qed

lemma polled_json:
  assumes "is_request g" and "is_request p" and "1 < timeout"
  shows "\<exists>s3. poll_json_results (polled_env (reply 200 v)) fid timeout
                  \<lparr>trace = [g, p], sess = hs\<rparr> = Some (Inr v, s3)"
proof -
  let ?E = "polled_env (reply 200 v)"
  let ?url = "BASE ?E @ format_path ?E (RESULTS_JSON_PATH ?E) fid"
  have t: "clock ?E (trace \<lparr>trace = [g, p, Time], sess = hs\<rparr> @ [Time]) - 3 < of_int timeout"
    using assms(3) by (simp add: polled_env_def)
  have h: "http ?E (trace \<lparr>trace = [g, p, Time], sess = hs\<rparr>
                     @ [Time, Get (sess \<lparr>trace = [g, p, Time], sess = hs\<rparr>) ?url None 15]) =
             Inr (response_of 200 v)"
    using assms(1,2) by (simp add: polled_env_def scripted_def is_request_def reply_def)
  have "poll_loop ?E ?url 3 timeout \<lparr>trace = [g, p, Time], sess = hs\<rparr> =
          Some (Inr v, \<lparr>trace = [g, p, Time, Time, Get hs ?url None 15], sess = hs\<rparr>)"
    by (simp add: poll_loop_reply [OF t h] startswith_def)
  then show ?thesis
    using polled_first_poll [OF assms, where x = "reply 200 v" and fid = fid and hs = hs]
    by (simp add: reply_def Let_def)
qed

text \<open>
  C3, as the code has it. When the polling loop of an \<^verbatim>\<open>analyze_track\<close> call returns
  a parsed JSON result that is a non-empty JSON object, \<^verbatim>\<open>analyze_track\<close> returns
  that object with \<^verbatim>\<open>file_id\<close> and \<^verbatim>\<open>filename\<close> appended, each only when the
  key is absent, and with every other key and value as it was. When the loop returns a
  falsy result (an empty object among them), \<^verbatim>\<open>analyze_track\<close> returns the visuals
  fallback instead.
\<close>

theorem analyze_track_polled_result:
  assumes "upload E file_bytes filename is_instrumental timeout retry_csrf tr = (Inr r, s2)"
      and "status_code r = 200" and "json r = Some (PDict resp)"
      and "\<not> truthy (dict_get resp ''results'')"
      and "truthy (dict_get resp ''file_id'')"
      and "poll_json_results E (dict_get resp ''file_id'') timeout s2 = Some (Inr v, s3)"
  shows "(\<forall>j. v = PDict j \<and> j \<noteq> [] \<longrightarrow>
            analyze_track E file_bytes filename is_instrumental timeout retry_csrf tr =
              Some (Inr (PDict
                 (j @ (if ''file_id'' \<in> fst ` set j then []
                       else [(''file_id'', dict_get resp ''file_id'')])
                    @ (if ''filename'' \<in> fst ` set j then []
                       else [(''filename'', PStr filename)]))), s3)) \<and>
         (\<not> truthy v \<longrightarrow>
            analyze_track E file_bytes filename is_instrumental timeout retry_csrf tr =
              Some (Inr (visuals_fallback E (dict_get resp ''file_id'') filename), s3))"
  using assms by (simp add: analyze_track_json setdefault_twice)

theorem analyze_track_polled_result_witness:
  "fst (upload (polled_env (reply 200 (PDict [(''score'', PInt 7), (''filename'', PStr ''x'')])))
          [1] ''a.mp3'' False 180 True []) =
     Inr (response_of 200 (PDict [(''file_id'', PStr ''abc'')])) \<and>
   map_option fst
     (analyze_track (polled_env (reply 200 (PDict [(''score'', PInt 7), (''filename'', PStr ''x'')])))
        [1] ''a.mp3'' False 180 True []) =
     Some (Inr (PDict [(''score'', PInt 7), (''filename'', PStr ''x''),
                       (''file_id'', PStr ''abc'')]))"
proof -
  let ?j = "[(''score'', PInt 7), (''filename'', PStr ''x'')]"
  let ?E = "polled_env (reply 200 (PDict ?j))"
  let ?resp = "[(''file_id'', PStr ''abc'')]"
  obtain g p hs
    where u: "upload ?E [1] ''a.mp3'' False 180 True [] =
                (Inr (response_of 200 (PDict ?resp)), \<lparr>trace = [g, p], sess = hs\<rparr>)"
      and gp: "is_request g" "is_request p"
    using polled_upload by blast
  obtain s3 where
    p: "poll_json_results ?E (dict_get ?resp ''file_id'') 180 \<lparr>trace = [g, p], sess = hs\<rparr> =
          Some (Inr (PDict ?j), s3)"
    using polled_json
      [OF gp, where timeout = 180 and v = "PDict ?j" and hs = hs
         and fid = "dict_get ?resp ''file_id''"]
    by auto
  from analyze_track_polled_result [OF u _ _ _ _ p] u show ?thesis
    by (simp add: dict_get_def)
qed

text \<open>
  A poll answered by 200, \<^verbatim>\<open>application/json\<close> and the body \<^verbatim>\<open>{}\<close>: the polling
  loop returns the parsed, empty object, and \<^verbatim>\<open>analyze_track\<close> returns the visuals
  fallback, not that object with the two keys added.
\<close>

theorem analyze_track_empty_result_counterexample:
  "map_option fst
     (poll_json_results (polled_env (reply 200 (PDict []))) (PStr ''abc'') 180
        (snd (upload (polled_env (reply 200 (PDict []))) [1] ''a.mp3'' False 180 True []))) =
     Some (Inr (PDict [])) \<and>
   map_option fst
     (analyze_track (polled_env (reply 200 (PDict []))) [1] ''a.mp3'' False 180 True []) =
     Some (Inr (visuals_fallback (polled_env (reply 200 (PDict []))) (PStr ''abc'') ''a.mp3'')) \<and>
   visuals_fallback (polled_env (reply 200 (PDict []))) (PStr ''abc'') ''a.mp3'' \<noteq>
     PDict (setdefault (setdefault [] ''file_id'' (PStr ''abc'')) ''filename'' (PStr ''a.mp3''))"
proof -
  let ?E = "polled_env (reply 200 (PDict []))"
  let ?resp = "[(''file_id'', PStr ''abc'')]"
  obtain g p hs
    where u: "upload ?E [1] ''a.mp3'' False 180 True [] =
                (Inr (response_of 200 (PDict ?resp)), \<lparr>trace = [g, p], sess = hs\<rparr>)"
      and gp: "is_request g" "is_request p"
    using polled_upload by blast
  obtain s3 where
    p: "poll_json_results ?E (PStr ''abc'') 180 \<lparr>trace = [g, p], sess = hs\<rparr> =
          Some (Inr (PDict []), s3)"
    using polled_json
      [OF gp, where timeout = 180 and v = "PDict []" and hs = hs and fid = "PStr ''abc''"]
    by auto
  have "analyze_track ?E [1] ''a.mp3'' False 180 True [] =
          Some (Inr (visuals_fallback ?E (PStr ''abc'') ''a.mp3''), s3)"
    using p by (simp add: analyze_track_json [OF u] dict_get_def)
  then show ?thesis
    using u p by (simp add: visuals_fallback_def setdefault_def)
qed

text \<open>
  C2, as the code has it. Let an \<^verbatim>\<open>analyze_track\<close> call enter polling: the upload
  ended with a 200 response whose parsed JSON has no non-empty \<^verbatim>\<open>results\<close> and a
  truthy \<^verbatim>\<open>file_id\<close>. If no poll request raises, every parsed poll body that is
  truthy is a JSON object, and the clock is past the deadline in every history from
  some length on, the call returns a result: the visuals fallback, or the polled JSON
  with \<^verbatim>\<open>file_id\<close> and \<^verbatim>\<open>filename\<close> set by default. An exception that leaves the
  polling loop (a network error or a timeout of a poll request) is not absorbed:
  \<^verbatim>\<open>analyze_track\<close> raises it.
\<close>

theorem analyze_track_polling_outcome:
  assumes "upload E file_bytes filename is_instrumental timeout retry_csrf tr = (Inr r, s2)"
      and "status_code r = 200" and "json r = Some (PDict resp)"
      and "\<not> truthy (dict_get resp ''results'')"
      and "truthy (dict_get resp ''file_id'')"
  shows
    "((\<forall>h hs. \<exists>r'. http E (h @ [Get hs (BASE E @ format_path E (RESULTS_JSON_PATH E)
                                           (dict_get resp ''file_id'')) None 15]) = Inr r' \<and>
                    (\<forall>v. json r' = Some v \<and> truthy v \<longrightarrow> (\<exists>j. v = PDict j))) \<and>
      (\<exists>N. \<forall>h. N \<le> length h \<longrightarrow>
              of_int timeout \<le> clock E h - clock E (trace s2 @ [Time])) \<longrightarrow>
      (\<exists>res s3.
         analyze_track E file_bytes filename is_instrumental timeout retry_csrf tr =
           Some (Inr res, s3) \<and>
         (res = visuals_fallback E (dict_get resp ''file_id'') filename \<or>
          (\<exists>j. poll_json_results E (dict_get resp ''file_id'') timeout s2 =
                  Some (Inr (PDict j), s3) \<and>
                res = PDict (setdefault (setdefault j ''file_id'' (dict_get resp ''file_id''))
                               ''filename'' (PStr filename)))))) \<and>
     (\<forall>e s3. poll_json_results E (dict_get resp ''file_id'') timeout s2 = Some (Inl e, s3) \<longrightarrow>
        analyze_track E file_bytes filename is_instrumental timeout retry_csrf tr =
          Some (Inl e, s3))"
proof (intro conjI impI allI)
  fix e s3
  assume "poll_json_results E (dict_get resp ''file_id'') timeout s2 = Some (Inl e, s3)"
  then show "analyze_track E file_bytes filename is_instrumental timeout retry_csrf tr =
               Some (Inl e, s3)"
    using assms by (simp add: analyze_track_json)
next
  let ?fid = "dict_get resp ''file_id''"
  let ?url = "BASE E @ format_path E (RESULTS_JSON_PATH E) ?fid"
  let ?start = "clock E (trace s2 @ [Time])"
  let ?P = "\<lambda>r'::response. \<forall>v. json r' = Some v \<and> truthy v \<longrightarrow> (\<exists>j. v = PDict j)"
  assume env: "(\<forall>h hs. \<exists>r'. http E (h @ [Get hs ?url None 15]) = Inr r' \<and> ?P r') \<and>
      (\<exists>N. \<forall>h. N \<le> length h \<longrightarrow> of_int timeout \<le> clock E h - ?start)"
  then obtain N where late: "\<forall>h. N \<le> length h \<longrightarrow> of_int timeout \<le> clock E h - ?start"
    by blast
  from env have ok: "\<forall>h hs. \<exists>r'. http E (h @ [Get hs ?url None 15]) = Inr r' \<and> ?P r'"
    by blast
  from poll_loop_total [where P = ?P, OF late ok, of "s2\<lparr>trace := trace s2 @ [Time]\<rparr>"]
  obtain v s3 where
    loop: "poll_loop E ?url ?start timeout (s2\<lparr>trace := trace s2 @ [Time]\<rparr>) = Some (Inr v, s3)"
    and v: "v = PNone \<or> (\<exists>r'. ?P r' \<and> json r' = Some v)"
    by blast
  have poll: "poll_json_results E ?fid timeout s2 = Some (Inr v, s3)"
    using loop by (simp add: poll_json_results_def time_now_def Let_def)
  show "\<exists>res s3.
         analyze_track E file_bytes filename is_instrumental timeout retry_csrf tr =
           Some (Inr res, s3) \<and>
         (res = visuals_fallback E ?fid filename \<or>
          (\<exists>j. poll_json_results E ?fid timeout s2 = Some (Inr (PDict j), s3) \<and>
                res = PDict (setdefault (setdefault j ''file_id'' ?fid)
                               ''filename'' (PStr filename))))"
  proof (cases "truthy v")
    case False
    then have "analyze_track E file_bytes filename is_instrumental timeout retry_csrf tr =
                 Some (Inr (visuals_fallback E ?fid filename), s3)"
      using assms poll by (simp add: analyze_track_json)
    then show ?thesis by blast
  next
    case True
    with v obtain j where j: "v = PDict j" by auto
    with True have "analyze_track E file_bytes filename is_instrumental timeout retry_csrf tr =
        Some (Inr (PDict (setdefault (setdefault j ''file_id'' ?fid)
                            ''filename'' (PStr filename))), s3)"
      using assms poll by (simp add: analyze_track_json)
    with poll j show ?thesis by blast
  qed
qed

theorem analyze_track_polling_outcome_witness:
  "fst (upload (polled_env (reply 200 (PDict [(''score'', PInt 7)])))
          [1] ''a.mp3'' False 180 True []) =
     Inr (response_of 200 (PDict [(''file_id'', PStr ''abc'')])) \<and>
   truthy (dict_get [(''file_id'', PStr ''abc'')] ''file_id'') \<and>
   map_option fst
     (analyze_track (polled_env (reply 200 (PDict [(''score'', PInt 7)])))
        [1] ''a.mp3'' False 180 True []) =
     Some (Inr (PDict [(''score'', PInt 7), (''file_id'', PStr ''abc''),
                       (''filename'', PStr ''a.mp3'')]))"
proof -
  let ?j = "[(''score'', PInt 7)]"
  let ?E = "polled_env (reply 200 (PDict ?j))"
  let ?resp = "[(''file_id'', PStr ''abc'')]"
  let ?fid = "dict_get ?resp ''file_id''"
  let ?url = "BASE ?E @ format_path ?E (RESULTS_JSON_PATH ?E) ?fid"
  obtain g p hs
    where u: "upload ?E [1] ''a.mp3'' False 180 True [] =
                (Inr (response_of 200 (PDict ?resp)), \<lparr>trace = [g, p], sess = hs\<rparr>)"
      and gp: "is_request g" "is_request p"
    using polled_upload by blast
  let ?s2 = "\<lparr>trace = [g, p], sess = hs\<rparr>"
  have ok: "\<forall>h hs'. \<exists>r'. http ?E (h @ [Get hs' ?url None 15]) = Inr r' \<and>
              (\<forall>v. json r' = Some v \<and> truthy v \<longrightarrow> (\<exists>j. v = PDict j))"
  proof (intro allI)
    fix h hs'
    have "scripted [token_reply, job_reply] (reply 200 (PDict ?j)) (h @ [Get hs' ?url None 15])
            \<in> insert (reply 200 (PDict ?j)) (set [token_reply, job_reply])"
      by (rule scripted_range)
    then show "\<exists>r'. http ?E (h @ [Get hs' ?url None 15]) = Inr r' \<and>
              (\<forall>v. json r' = Some v \<and> truthy v \<longrightarrow> (\<exists>j. v = PDict j))"
      by (auto simp: polled_env_def token_reply_def job_reply_def reply_def)
  qed
  have late: "\<exists>N. \<forall>h. N \<le> length h \<longrightarrow>
                 of_int 180 \<le> clock ?E h - clock ?E (trace ?s2 @ [Time])"
  proof (intro exI allI impI)
    fix h :: "event list"
    assume "183 \<le> length h"
    then have "(183::rat) \<le> of_nat (length h)"
      by (metis of_nat_le_iff of_nat_numeral)
    then show "of_int 180 \<le> clock ?E h - clock ?E (trace ?s2 @ [Time])"
      by (simp add: polled_env_def)
  qed
  obtain s3 where
    p: "poll_json_results ?E ?fid 180 ?s2 = Some (Inr (PDict ?j), s3)"
    using polled_json
      [OF gp, where timeout = 180 and v = "PDict ?j" and hs = hs and fid = ?fid]
    by auto
  from analyze_track_polling_outcome [OF u, THEN conjunct1] ok late
  have "\<exists>res s3'.
         analyze_track ?E [1] ''a.mp3'' False 180 True [] = Some (Inr res, s3') \<and>
         (res = visuals_fallback ?E ?fid ''a.mp3'' \<or>
          (\<exists>j. poll_json_results ?E ?fid 180 ?s2 = Some (Inr (PDict j), s3') \<and>
                res = PDict (setdefault (setdefault j ''file_id'' ?fid)
                               ''filename'' (PStr ''a.mp3''))))"
    by (simp add: dict_get_def)
  then obtain res s3' where
    a: "analyze_track ?E [1] ''a.mp3'' False 180 True [] = Some (Inr res, s3')"
    by blast
  have "analyze_track ?E [1] ''a.mp3'' False 180 True [] =
          Some (Inr (PDict (setdefault (setdefault ?j ''file_id'' ?fid)
                              ''filename'' (PStr ''a.mp3''))), s3)"
    using p by (simp add: analyze_track_json [OF u] dict_get_def)
  with a u show ?thesis
    by (simp add: setdefault_def dict_get_def)
qed

text \<open>
  A host that cannot be reached once the upload is accepted: polling is entered, the
  first poll request raises \<^verbatim>\<open>ConnectionError\<close>, and \<^verbatim>\<open>analyze_track\<close> raises it.
\<close>

theorem analyze_track_poll_raises_counterexample:
  "fst (upload (polled_env unreachable) [1] ''a.mp3'' False 180 True []) =
     Inr (response_of 200 (PDict [(''file_id'', PStr ''abc'')])) \<and>
   truthy (dict_get [(''file_id'', PStr ''abc'')] ''file_id'') \<and>
   map_option fst (analyze_track (polled_env unreachable) [1] ''a.mp3'' False 180 True []) =
     Some (Inl (LibraryError ''ConnectionError'' ''no route to host''))"
proof -
  let ?E = "polled_env unreachable"
  let ?resp = "[(''file_id'', PStr ''abc'')]"
  obtain g p hs
    where u: "upload ?E [1] ''a.mp3'' False 180 True [] =
                (Inr (response_of 200 (PDict ?resp)), \<lparr>trace = [g, p], sess = hs\<rparr>)"
      and gp: "is_request g" "is_request p"
    using polled_upload by blast
  have "map_option fst (poll_json_results ?E (PStr ''abc'') 180 \<lparr>trace = [g, p], sess = hs\<rparr>) =
          Some (Inl (LibraryError ''ConnectionError'' ''no route to host''))"
    using polled_first_poll
      [OF gp, where timeout = 180 and x = unreachable and hs = hs and fid = "PStr ''abc''"]
    by (simp add: unreachable_def Let_def)
  then have "map_option fst (analyze_track ?E [1] ''a.mp3'' False 180 True []) =
          Some (Inl (LibraryError ''ConnectionError'' ''no route to host''))"
    by (auto simp: analyze_track_json [OF u] dict_get_def)
  with u show ?thesis by (simp add: dict_get_def)
qed


end
